theory Spec2Isabelle
  imports Main "HOL-Library.Word"
begin

unbundle bit_operations_syntax

section \<open>Shared-memory export of the daemon (shmexport.c)\<close>

text \<open>
  The file has four functions: \<open>recreate_segment\<close>, \<open>shm_acquire\<close>, \<open>shm_release\<close> and
  \<open>shm_update\<close>. They talk to the System V shared-memory interface of the platform, write
  through a pointer into the attached segment, keep a static tick counter and read and
  write \<open>errno\<close>. All of that is made explicit here as a world state that every function
  takes and returns.
\<close>

subsection \<open>Data\<close>

text \<open>Pointers are 64-bit addresses (an LP64 platform); \<open>NULL\<close> is address 0.\<close>

type_synonym addr = "64 word"

definition NULL :: addr where
  "NULL = 0"

text \<open>
  \<open>struct gps_data_t\<close> is declared outside this file. The only field the file names is
  \<open>gps_fd\<close> (an \<open>int\<close> in the build without \<open>USE_QT\<close>); every other field is carried along
  in \<open>gps_other\<close>, of an arbitrary type.
\<close>

record 'g gps_data_t =
  gps_fd :: int
  gps_other :: 'g

text \<open>
  \<open>struct shmexport_t\<close>, as the file uses it: two \<open>int\<close> bookends around the payload.
  A C \<open>int\<close> is a 32-bit word, read as a signed number by \<open>sint\<close>.
  \<open>bookend2\<close> is the one written first in an update, \<open>bookend1\<close> the one written last.
\<close>

record 'g shmexport_t =
  bookend1 :: "32 word"
  gpsdata :: "'g gps_data_t"
  bookend2 :: "32 word"

text \<open>The two fields of \<open>struct gps_context_t\<close> that the file reads and writes.\<close>

record gps_context_t =
  shmexport :: addr
  shmid :: int

text \<open>\<open>struct shmid_ds\<close>, restricted to the two members the file reads.\<close>

record shmid_ds =
  shm_segsz :: nat
  shm_nattch :: nat

datatype loglevel = LOG_ERROR | LOG_WARN | LOG_PROG

text \<open>
  Everything the code does to the outside is recorded, in program order, as an event:
  the system calls with their arguments, the log messages (level and format string, with
  its final newline; the formatted arguments are not modelled), the stores into the attached segment and the
  memory barriers.
\<close>

datatype 'g event =
    E_shmget int nat int
  | E_shmctl_stat int
  | E_shmctl_rmid int
  | E_shmat int
  | E_shmdt addr
  | E_log loglevel string
  | E_store_bookend2 addr "32 word"
  | E_store_gpsdata addr "'g gps_data_t"
  | E_store_gps_fd addr int
  | E_store_bookend1 addr "32 word"
  | E_memory_barrier

text \<open>
  The world: \<open>errno\<close>, the state of the kernel (of any type \<open>'k\<close>), the static variable
  \<open>tick\<close> of \<open>shm_update\<close>, the memory holding the exported record at each address, and
  the events so far.
\<close>

record ('k, 'g) world =
  errno :: int
  kernel :: 'k
  tick :: "32 word"
  memory :: "addr \<Rightarrow> 'g shmexport_t"
  trace :: "'g event list"

subsection \<open>The platform\<close>

text \<open>
  The System V calls, \<open>getenv\<close> and \<open>strtol\<close> belong to the platform, not to this file,
  so they are parameters: any functions of these types. A call takes the kernel state and
  returns the new one with either an error number (\<open>Inl\<close>) or its result (\<open>Inr\<close>).
  Segment identifiers returned by the platform are natural numbers, so a successful
  \<open>shmget\<close> never returns \<open>-1\<close>. \<open>IPC_CREAT\<close> is the flag of \<open>sys/ipc.h\<close>.
\<close>

record 'k platform =
  IPC_CREAT :: int
  sys_getenv :: "string \<Rightarrow> string option"
  lib_strtol :: "string \<Rightarrow> int"
  sys_shmget :: "int \<Rightarrow> nat \<Rightarrow> int \<Rightarrow> 'k \<Rightarrow> (int + nat) \<times> 'k"
  sys_shmctl_stat :: "int \<Rightarrow> 'k \<Rightarrow> (int + shmid_ds) \<times> 'k"
  sys_shmctl_rmid :: "int \<Rightarrow> 'k \<Rightarrow> (int + unit) \<times> 'k"
  sys_shmat :: "int \<Rightarrow> 'k \<Rightarrow> (int + addr) \<times> 'k"
  sys_shmdt :: "addr \<Rightarrow> 'k \<Rightarrow> (int + unit) \<times> 'k"

text \<open>
  Constants of headers that are not part of this file: the default key, the descriptor
  value that marks data read from shared memory, and \<open>sizeof(struct shmexport_t)\<close>.
\<close>

record build =
  GPSD_SHM_KEY :: int
  SHM_PSEUDO_FD :: int
  sizeof_shmexport_t :: nat

subsection \<open>The calls as the C code sees them\<close>

text \<open>
  A C-level call returns \<open>-1\<close> and sets \<open>errno\<close> when the platform reports an error. When
  the platform reports success the call leaves \<open>errno\<close> as it was, which is what the
  system-call wrappers of the C library do. Each call is appended to the trace.
\<close>

definition shmget ::
  "'k platform \<Rightarrow> int \<Rightarrow> nat \<Rightarrow> int \<Rightarrow> ('k, 'g) world \<Rightarrow> int \<times> ('k, 'g) world" where
  "shmget P key sz shmflg w =
     (case sys_shmget P key sz shmflg (kernel w) of
        (Inl e, k) \<Rightarrow>
          (- 1, w\<lparr>errno := e, kernel := k, trace := trace w @ [E_shmget key sz shmflg]\<rparr>)
      | (Inr i, k) \<Rightarrow>
          (int i, w\<lparr>kernel := k, trace := trace w @ [E_shmget key sz shmflg]\<rparr>))"

text \<open>
  \<open>shmctl(shmid, IPC_STAT, &segment)\<close>: the result is \<open>None\<close> for a return value of \<open>-1\<close>
  (the buffer is then not filled in) and the contents of the buffer otherwise.
\<close>

definition shmctl_stat ::
  "'k platform \<Rightarrow> int \<Rightarrow> ('k, 'g) world \<Rightarrow> shmid_ds option \<times> ('k, 'g) world" where
  "shmctl_stat P sid w =
     (case sys_shmctl_stat P sid (kernel w) of
        (Inl e, k) \<Rightarrow>
          (None, w\<lparr>errno := e, kernel := k, trace := trace w @ [E_shmctl_stat sid]\<rparr>)
      | (Inr ds, k) \<Rightarrow>
          (Some ds, w\<lparr>kernel := k, trace := trace w @ [E_shmctl_stat sid]\<rparr>))"

text \<open>\<open>shmctl(shmid, IPC_RMID, NULL)\<close>: returns \<open>-1\<close> or \<open>0\<close>.\<close>

definition shmctl_rmid ::
  "'k platform \<Rightarrow> int \<Rightarrow> ('k, 'g) world \<Rightarrow> int \<times> ('k, 'g) world" where
  "shmctl_rmid P sid w =
     (case sys_shmctl_rmid P sid (kernel w) of
        (Inl e, k) \<Rightarrow>
          (- 1, w\<lparr>errno := e, kernel := k, trace := trace w @ [E_shmctl_rmid sid]\<rparr>)
      | (Inr _, k) \<Rightarrow>
          (0, w\<lparr>kernel := k, trace := trace w @ [E_shmctl_rmid sid]\<rparr>))"

text \<open>\<open>shmat(shmid, 0, 0)\<close>: returns \<open>(void *)-1\<close>, the address of all ones, on failure.\<close>

definition shmat ::
  "'k platform \<Rightarrow> int \<Rightarrow> ('k, 'g) world \<Rightarrow> addr \<times> ('k, 'g) world" where
  "shmat P sid w =
     (case sys_shmat P sid (kernel w) of
        (Inl e, k) \<Rightarrow>
          (- 1, w\<lparr>errno := e, kernel := k, trace := trace w @ [E_shmat sid]\<rparr>)
      | (Inr a, k) \<Rightarrow>
          (a, w\<lparr>kernel := k, trace := trace w @ [E_shmat sid]\<rparr>))"

definition shmdt ::
  "'k platform \<Rightarrow> addr \<Rightarrow> ('k, 'g) world \<Rightarrow> int \<times> ('k, 'g) world" where
  "shmdt P a w =
     (case sys_shmdt P a (kernel w) of
        (Inl e, k) \<Rightarrow>
          (- 1, w\<lparr>errno := e, kernel := k, trace := trace w @ [E_shmdt a]\<rparr>)
      | (Inr _, k) \<Rightarrow>
          (0, w\<lparr>kernel := k, trace := trace w @ [E_shmdt a]\<rparr>))"

text \<open>
  \<open>GPSD_LOG\<close> and \<open>memory_barrier\<close> are macros of headers outside this file. In this
  sequential model each of them only leaves its event in the trace.
\<close>

definition GPSD_LOG :: "loglevel \<Rightarrow> string \<Rightarrow> ('k, 'g) world \<Rightarrow> ('k, 'g) world" where
  "GPSD_LOG lvl fmt w = w\<lparr>trace := trace w @ [E_log lvl fmt]\<rparr>"

definition memory_barrier :: "('k, 'g) world \<Rightarrow> ('k, 'g) world" where
  "memory_barrier w = w\<lparr>trace := trace w @ [E_memory_barrier]\<rparr>"

text \<open>The four stores of \<open>shm_update\<close> through the pointer \<open>shared\<close>.\<close>

definition store_bookend2 :: "addr \<Rightarrow> 32 word \<Rightarrow> ('k, 'g) world \<Rightarrow> ('k, 'g) world" where
  "store_bookend2 shared t w =
     w\<lparr>memory := (memory w)(shared := (memory w shared)\<lparr>bookend2 := t\<rparr>),
       trace := trace w @ [E_store_bookend2 shared t]\<rparr>"

definition store_gpsdata :: "addr \<Rightarrow> 'g gps_data_t \<Rightarrow> ('k, 'g) world \<Rightarrow> ('k, 'g) world" where
  "store_gpsdata shared d w =
     w\<lparr>memory := (memory w)(shared := (memory w shared)\<lparr>gpsdata := d\<rparr>),
       trace := trace w @ [E_store_gpsdata shared d]\<rparr>"

definition store_gps_fd :: "addr \<Rightarrow> int \<Rightarrow> ('k, 'g) world \<Rightarrow> ('k, 'g) world" where
  "store_gps_fd shared fd w =
     w\<lparr>memory := (memory w)(shared :=
          (memory w shared)\<lparr>gpsdata := (gpsdata (memory w shared))\<lparr>gps_fd := fd\<rparr>\<rparr>),
       trace := trace w @ [E_store_gps_fd shared fd]\<rparr>"

definition store_bookend1 :: "addr \<Rightarrow> 32 word \<Rightarrow> ('k, 'g) world \<Rightarrow> ('k, 'g) world" where
  "store_bookend1 shared t w =
     w\<lparr>memory := (memory w)(shared := (memory w shared)\<lparr>bookend1 := t\<rparr>),
       trace := trace w @ [E_store_bookend1 shared t]\<rparr>"

subsection \<open>recreate\_segment\<close>

text \<open>
  The early returns of the C function are the branches of the conditional, in the
  order of the source. \<open>saved_errno\<close> is \<open>errno\<close> right after the first \<open>shmget\<close> failed.
  The branches for a segment that is big enough and for a segment with attached processes
  return without assigning \<open>errno\<close>.
\<close>

definition recreate_segment ::
  "'k platform \<Rightarrow> int \<Rightarrow> nat \<Rightarrow> int \<Rightarrow> ('k, 'g) world \<Rightarrow> int \<times> ('k, 'g) world" where
  "recreate_segment P shmkey desired_size mode w =
     (let (shmid, w1) = shmget P shmkey desired_size (mode OR IPC_CREAT P) w in
      if shmid \<noteq> - 1 then (shmid, w1)
      else
        let saved_errno = errno w1;
            (shmid, w2) = shmget P shmkey 0 0 w1 in
        if - 1 = shmid then (- 1, w2\<lparr>errno := saved_errno\<rparr>)
        else
          case shmctl_stat P shmid w2 of
            (None, w3) \<Rightarrow> (- 1, w3\<lparr>errno := saved_errno\<rparr>)
          | (Some segment, w3) \<Rightarrow>
              if shm_segsz segment \<ge> desired_size then (- 1, w3)
              else if shm_nattch segment > 0 then (- 1, w3)
              else
                let (r, w4) = shmctl_rmid P shmid w3 in
                if - 1 = r then (- 1, w4\<lparr>errno := saved_errno\<rparr>)
                else shmget P shmkey desired_size (mode OR IPC_CREAT P) w4)"

subsection \<open>shm\_acquire\<close>

text \<open>
  \<open>(key_t)shmkey\<close> converts a \<open>long\<close> to the 32-bit \<open>key_t\<close>; \<open>(int)(long)p == -1\<close> looks
  at the low 32 bits of the pointer. The mode \<open>0666\<close> is octal.
\<close>

definition key_t_of_long :: "int \<Rightarrow> int" where
  "key_t_of_long k = sint (word_of_int k :: 32 word)"

definition int_of_pointer :: "addr \<Rightarrow> 32 word" where
  "int_of_pointer p = ucast p"

definition shm_acquire ::
  "'k platform \<Rightarrow> build \<Rightarrow> gps_context_t \<Rightarrow> ('k, 'g) world
     \<Rightarrow> bool \<times> gps_context_t \<times> ('k, 'g) world" where
  "shm_acquire P B context w =
     (let shmkey = (case sys_getenv P ''GPSD_SHM_KEY'' of
                      Some s \<Rightarrow> lib_strtol P s
                    | None \<Rightarrow> GPSD_SHM_KEY B);
          mode = 6 * 64 + 6 * 8 + 6;
          segment_size = sizeof_shmexport_t B;
          (shmid, w1) = recreate_segment P (key_t_of_long shmkey) segment_size mode w in
      if shmid = - 1 then
        (False, context,
         GPSD_LOG LOG_ERROR ''shmget(0x%lx, %zd, 0666) for SHM export failed: %s\<newline>'' w1)
      else
        let w2 = GPSD_LOG LOG_PROG ''shmget(0x%lx, %zd, 0666) for SHM export succeeded\<newline>'' w1;
            (p, w3) = shmat P shmid w2;
            context1 = context\<lparr>shmexport := p\<rparr> in
        if int_of_pointer (shmexport context1) = - 1 then
          (False, context1\<lparr>shmexport := NULL\<rparr>, GPSD_LOG LOG_ERROR ''shmat failed: %s\<newline>'' w3)
        else
          (True, context1\<lparr>shmid := shmid\<rparr>,
           GPSD_LOG LOG_PROG ''shmat() for SHM export succeeded, segment %d\<newline>'' w3))"

subsection \<open>shm\_release\<close>

definition shm_release ::
  "'k platform \<Rightarrow> gps_context_t \<Rightarrow> ('k, 'g) world \<Rightarrow> gps_context_t \<times> ('k, 'g) world" where
  "shm_release P context w =
     (if shmexport context = NULL then (context, w)
      else
        let (r, w1) = shmctl_rmid P (shmid context) w;
            w2 = (if r = - 1
                  then GPSD_LOG LOG_WARN ''shmctl for IPC_RMID failed, errno = %d (%s)\<newline>'' w1
                  else w1);
            (_, w3) = shmdt P (shmexport context) w2 in
        (context, w3))"

subsection \<open>shm\_update\<close>

text \<open>
  \<open>++tick\<close> on the static \<open>int\<close> is addition on 32-bit words: it wraps from the largest
  value to the smallest.
\<close>

definition shm_update ::
  "build \<Rightarrow> gps_context_t \<Rightarrow> 'g gps_data_t \<Rightarrow> ('k, 'g) world
     \<Rightarrow> gps_context_t \<times> ('k, 'g) world" where
  "shm_update B context gpsdata_in w =
     (if shmexport context \<noteq> NULL then
        let shared = shmexport context;
            w1 = w\<lparr>tick := tick w + 1\<rparr>;
            w2 = store_bookend2 shared (tick w1) w1;
            w3 = memory_barrier w2;
            w4 = store_gpsdata shared gpsdata_in w3;
            w5 = memory_barrier w4;
            w6 = store_gps_fd shared (SHM_PSEUDO_FD B) w5;
            w7 = memory_barrier w6;
            w8 = store_bookend1 shared (tick w7) w7
        in (context, w8)
      else (context, w))"

subsection \<open>A platform that answers from a script\<close>

text \<open>
  The theorems below hold for every platform. To run the functions on concrete inputs
  we use a platform whose kernel state is the list of answers still to be given: each
  call takes the next answer if it is of the right kind, and fails with \<open>EINVAL\<close> (22)
  otherwise. \<open>IPC_CREAT\<close> is \<open>01000\<close> octal, as on Linux.
\<close>

datatype reply = Fails int | Shmid nat | Stat shmid_ds | Done | Address addr

definition scripted :: "reply list platform" where
  "scripted =
     \<lparr>IPC_CREAT = 512,
      sys_getenv = (\<lambda>_. None),
      lib_strtol = (\<lambda>_. 0),
      sys_shmget = (\<lambda>_ _ _ k. case k of
          Fails e # k' \<Rightarrow> (Inl e, k') | Shmid i # k' \<Rightarrow> (Inr i, k') | _ \<Rightarrow> (Inl 22, k)),
      sys_shmctl_stat = (\<lambda>_ k. case k of
          Fails e # k' \<Rightarrow> (Inl e, k') | Stat ds # k' \<Rightarrow> (Inr ds, k') | _ \<Rightarrow> (Inl 22, k)),
      sys_shmctl_rmid = (\<lambda>_ k. case k of
          Fails e # k' \<Rightarrow> (Inl e, k') | Done # k' \<Rightarrow> (Inr (), k') | _ \<Rightarrow> (Inl 22, k)),
      sys_shmat = (\<lambda>_ k. case k of
          Fails e # k' \<Rightarrow> (Inl e, k') | Address a # k' \<Rightarrow> (Inr a, k') | _ \<Rightarrow> (Inl 22, k)),
      sys_shmdt = (\<lambda>_ k. case k of
          Fails e # k' \<Rightarrow> (Inl e, k') | Done # k' \<Rightarrow> (Inr (), k') | _ \<Rightarrow> (Inl 22, k))\<rparr>"

text \<open>
  An example build (the key spells GPSD, the pseudo descriptor is \<open>-1\<close>), an initial
  world with a given script, a snapshot, and two contexts: one exporting, one not.
\<close>

definition ex_build :: build where
  "ex_build = \<lparr>GPSD_SHM_KEY = 0x47505344, SHM_PSEUDO_FD = - 1, sizeof_shmexport_t = 200\<rparr>"

definition ex_world :: "reply list \<Rightarrow> (reply list, nat) world" where
  "ex_world script =
     \<lparr>errno = 0, kernel = script, tick = 0,
      memory = (\<lambda>_. \<lparr>bookend1 = 0, gpsdata = \<lparr>gps_fd = 0, gps_other = 0\<rparr>, bookend2 = 0\<rparr>),
      trace = []\<rparr>"

definition ex_gpsdata :: "nat gps_data_t" where
  "ex_gpsdata = \<lparr>gps_fd = 5, gps_other = 42\<rparr>"

definition ex_context :: gps_context_t where
  "ex_context = \<lparr>shmexport = 4096, shmid = 7\<rparr>"

definition ex_null_context :: gps_context_t where
  "ex_null_context = \<lparr>shmexport = NULL, shmid = 0\<rparr>"

section \<open>The publisher: shm\_update\<close>

lemmas store_defs =
  store_bookend2_def store_gpsdata_def store_gps_fd_def store_bookend1_def memory_barrier_def

lemma shm_update_events:
  "shmexport c \<noteq> NULL \<Longrightarrow>
   trace (snd (shm_update B c g w)) = trace w @
     [E_store_bookend2 (shmexport c) (tick w + 1), E_memory_barrier,
      E_store_gpsdata (shmexport c) g, E_memory_barrier,
      E_store_gps_fd (shmexport c) (SHM_PSEUDO_FD B), E_memory_barrier,
      E_store_bookend1 (shmexport c) (tick w + 1)]"
  by (simp add: shm_update_def Let_def store_defs)

lemma shm_update_record:
  "shmexport c \<noteq> NULL \<Longrightarrow>
   memory (snd (shm_update B c g w)) (shmexport c) =
     \<lparr>bookend1 = tick w + 1, gpsdata = g\<lparr>gps_fd := SHM_PSEUDO_FD B\<rparr>, bookend2 = tick w + 1\<rparr>"
  by (simp add: shm_update_def Let_def store_defs)

lemma shm_update_tick:
  "shmexport c \<noteq> NULL \<Longrightarrow> tick (snd (shm_update B c g w)) = tick w + 1"
  by (simp add: shm_update_def Let_def store_defs)

lemma shm_update_null:
  "shmexport c = NULL \<Longrightarrow> shm_update B c g w = (c, w)"
  by (simp add: shm_update_def)

lemma shm_update_context: "fst (shm_update B c g w) = c"
  by (simp add: shm_update_def Let_def)

lemma ex_context_not_null: "shmexport ex_context \<noteq> NULL"
  by (simp add: ex_context_def NULL_def)

text \<open>Incrementing a C \<open>int\<close>: one more below \<open>INT_MAX\<close>, \<open>INT_MIN\<close> at \<open>INT_MAX\<close>.\<close>

lemma sint_incr_below_max:
  fixes x :: "32 word"
  assumes "sint x \<noteq> 2 ^ 31 - 1"
  shows "sint (x + 1) = sint x + 1"
proof -
  have "sint x < 2 ^ 31" and "- (2 ^ 31) \<le> sint x"
    using sint_lt [of x] sint_ge [of x] by simp_all
  with assms have "- (2 ^ 31) \<le> sint x + 1" and "sint x + 1 < 2 ^ 31"
    by simp_all
  then have "signed_take_bit 31 (sint x + 1) = sint x + 1"
    by (simp add: signed_take_bit_int_eq_self)
  then show ?thesis
    by (simp add: sint_word_ariths)
qed

lemma sint_incr_at_max:
  fixes x :: "32 word"
  assumes "sint x = 2 ^ 31 - 1"
  shows "sint (x + 1) = - (2 ^ 31)"
proof -
  from assms have "word_of_int (sint x) = (word_of_int (2 ^ 31 - 1) :: 32 word)"
    by simp
  then have "x = 0x7FFFFFFF"
    by simp
  then show ?thesis
    by simp
qed

text \<open>
  Claim C1, as amended. A publish on a context whose region is not null performs exactly
  these operations on the shared segment, in this order: store the tick, incremented, into
  \<open>bookend2\<close> (the trailing bookend); memory barrier; copy the whole snapshot into
  \<open>gpsdata\<close>; memory barrier; store \<open>SHM_PSEUDO_FD\<close> into \<open>gpsdata.gps_fd\<close>; memory
  barrier; store the same tick into \<open>bookend1\<close> (the leading bookend). There is a
  barrier between the copy and the patch of the descriptor, and the store into
  \<open>bookend1\<close> is the last operation: no barrier follows it.
\<close>

theorem shm_update_operation_sequence:
  assumes "shmexport context \<noteq> NULL"
  shows "trace (snd (shm_update B context g w)) = trace w @
     [E_store_bookend2 (shmexport context) (tick w + 1),
      E_memory_barrier,
      E_store_gpsdata (shmexport context) g,
      E_memory_barrier,
      E_store_gps_fd (shmexport context) (SHM_PSEUDO_FD B),
      E_memory_barrier,
      E_store_bookend1 (shmexport context) (tick w + 1)]"
  using assms by (rule shm_update_events)

theorem shm_update_operation_sequence_witness:
  "shmexport ex_context \<noteq> NULL \<and>
   trace (snd (shm_update ex_build ex_context ex_gpsdata (ex_world []))) =
     [E_store_bookend2 4096 1, E_memory_barrier,
      E_store_gpsdata 4096 ex_gpsdata, E_memory_barrier,
      E_store_gps_fd 4096 (- 1), E_memory_barrier,
      E_store_bookend1 4096 1]"
proof -
  have h: "shmexport ex_context \<noteq> NULL"
    by (rule ex_context_not_null)
  show ?thesis
    using h shm_update_operation_sequence [OF h, of ex_build ex_gpsdata "ex_world []"]
    by (simp add: ex_context_def ex_build_def ex_world_def)
qed

text \<open>
  Claim C1 as it is written asks for the sequence store, barrier, copy, patch, barrier,
  store, barrier. On the example context the operations performed are not that sequence.
\<close>

theorem shm_update_fence_after_leading_counterexample:
  "shmexport ex_context \<noteq> NULL \<and>
   trace (snd (shm_update ex_build ex_context ex_gpsdata (ex_world []))) \<noteq>
     [E_store_bookend2 4096 1, E_memory_barrier,
      E_store_gpsdata 4096 ex_gpsdata,
      E_store_gps_fd 4096 (- 1), E_memory_barrier,
      E_store_bookend1 4096 1, E_memory_barrier]"
  by (simp add: shm_update_def Let_def store_defs ex_context_def ex_build_def ex_world_def
      NULL_def)

text \<open>
  Claim C2. After a publish on a context whose region is not null, the record in the
  region has both bookends equal to the new tick, and its payload is the snapshot passed
  in with \<open>gps_fd\<close> replaced by \<open>SHM_PSEUDO_FD\<close>: every other field is the snapshot's.
\<close>

theorem shm_update_publishes_snapshot:
  assumes "shmexport context \<noteq> NULL"
  shows "let w' = snd (shm_update B context g w);
             r = memory w' (shmexport context)
         in tick w' = tick w + 1 \<and>
            bookend1 r = tick w' \<and>
            bookend2 r = tick w' \<and>
            gpsdata r = g\<lparr>gps_fd := SHM_PSEUDO_FD B\<rparr> \<and>
            gps_fd (gpsdata r) = SHM_PSEUDO_FD B \<and>
            gps_other (gpsdata r) = gps_other g"
  using assms by (simp add: Let_def shm_update_record shm_update_tick)

theorem shm_update_publishes_snapshot_witness:
  "shmexport ex_context \<noteq> NULL \<and>
   memory (snd (shm_update ex_build ex_context ex_gpsdata (ex_world []))) 4096 =
     \<lparr>bookend1 = 1, gpsdata = \<lparr>gps_fd = - 1, gps_other = 42\<rparr>, bookend2 = 1\<rparr>"
proof -
  have h: "shmexport ex_context \<noteq> NULL"
    by (rule ex_context_not_null)
  show ?thesis
    using h shm_update_publishes_snapshot [OF h, of ex_build ex_gpsdata "ex_world []"]
    by (simp add: Let_def ex_context_def ex_build_def ex_world_def ex_gpsdata_def)
qed

text \<open>
  Claim C7. Take two publishes that both find the region not null, with nothing in
  between that changes the tick counter (a publish on a null region, \<open>shm_acquire\<close> and
  \<open>shm_release\<close> leave it alone, see \<open>shm_update_null\<close>, \<open>shm_acquire_tick\<close> and
  \<open>shm_release_tick\<close>). The
  bookends written by the second are those written by the first plus one, as 32-bit
  numbers; so the two bookend pairs are never equal, and as signed numbers the second
  tick is the first plus one unless the first was \<open>INT_MAX\<close>, where it wraps to
  \<open>INT_MIN\<close>.
\<close>

theorem shm_update_tick_monotone:
  assumes "shmexport c1 \<noteq> NULL" and "shmexport c2 \<noteq> NULL"
    and "w1 = snd (shm_update B c1 g1 w0)"
    and "tick w1' = tick w1"
    and "w2 = snd (shm_update B c2 g2 w1')"
    and "r1 = memory w1 (shmexport c1)"
    and "r2 = memory w2 (shmexport c2)"
  shows "bookend2 r2 = bookend2 r1 + 1 \<and> bookend1 r2 = bookend1 r1 + 1 \<and>
         (bookend1 r2, bookend2 r2) \<noteq> (bookend1 r1, bookend2 r1) \<and>
         (sint (bookend1 r1) \<noteq> 2 ^ 31 - 1 \<longrightarrow>
            sint (bookend1 r2) = sint (bookend1 r1) + 1 \<and> sint (bookend1 r1) < sint (bookend1 r2)) \<and>
         (sint (bookend1 r1) = 2 ^ 31 - 1 \<longrightarrow> sint (bookend1 r2) = - (2 ^ 31))"
proof -
  have b1: "bookend1 r1 = tick w0 + 1" and b1': "bookend2 r1 = tick w0 + 1"
    using assms(1,3,6) by (simp_all add: shm_update_record)
  have t: "tick w1' = tick w0 + 1"
    using assms(1,3,4) by (simp add: shm_update_tick)
  have b2: "bookend1 r2 = bookend1 r1 + 1" and b2': "bookend2 r2 = bookend2 r1 + 1"
    using assms(2,5,7) t b1 b1' by (simp_all add: shm_update_record)
  have ne: "bookend1 r2 \<noteq> bookend1 r1"
    by (simp add: b2)
  show ?thesis
    using b2 b2' ne sint_incr_below_max [of "bookend1 r1"] sint_incr_at_max [of "bookend1 r1"]
    by simp
qed

theorem shm_update_tick_monotone_witness:
  "shmexport ex_context \<noteq> NULL \<and>
   bookend1 (memory (snd (shm_update ex_build ex_context ex_gpsdata
      (snd (shm_update ex_build ex_context ex_gpsdata (ex_world []))))) 4096) = 2 \<and>
   bookend2 (memory (snd (shm_update ex_build ex_context ex_gpsdata
      (snd (shm_update ex_build ex_context ex_gpsdata (ex_world []))))) 4096) = 2 \<and>
   bookend1 (memory (snd (shm_update ex_build ex_context ex_gpsdata (ex_world []))) 4096) = 1"
proof -
  have h: "shmexport ex_context \<noteq> NULL"
    by (rule ex_context_not_null)
  define w1 where "w1 = snd (shm_update ex_build ex_context ex_gpsdata (ex_world []))"
  define w2 where "w2 = snd (shm_update ex_build ex_context ex_gpsdata w1)"
  have r1: "memory w1 4096 =
      \<lparr>bookend1 = 1, gpsdata = ex_gpsdata\<lparr>gps_fd := - 1\<rparr>, bookend2 = 1\<rparr>"
    unfolding w1_def
    using shm_update_record [OF h, of ex_build ex_gpsdata "ex_world []"]
    by (simp add: ex_context_def ex_build_def ex_world_def)
  have "bookend2 (memory w2 (shmexport ex_context)) = bookend2 (memory w1 (shmexport ex_context)) + 1
      \<and> bookend1 (memory w2 (shmexport ex_context)) = bookend1 (memory w1 (shmexport ex_context)) + 1"
    using shm_update_tick_monotone [OF h h w1_def refl w2_def refl refl] by simp
  then show ?thesis
    using h r1 by (simp add: ex_context_def w1_def w2_def)
qed

section \<open>The segment manager: recreate\_segment\<close>

text \<open>What each call leaves in the world.\<close>

lemmas call_defs = shmget_def shmctl_stat_def shmctl_rmid_def shmat_def shmdt_def GPSD_LOG_def

lemma shmget_trace: "trace (snd (shmget P key sz flg w)) = trace w @ [E_shmget key sz flg]"
  by (simp add: shmget_def split: prod.splits sum.splits)

lemma shmget_failed:
  "shmget P key sz flg w = (- 1, w1) \<longleftrightarrow>
   (\<exists>e k. sys_shmget P key sz flg (kernel w) = (Inl e, k) \<and>
      w1 = w\<lparr>errno := e, kernel := k, trace := trace w @ [E_shmget key sz flg]\<rparr>)"
  by (auto simp: shmget_def split: prod.splits sum.splits)

lemma shmctl_stat_trace: "trace (snd (shmctl_stat P sid w)) = trace w @ [E_shmctl_stat sid]"
  by (simp add: shmctl_stat_def split: prod.splits sum.splits)

lemma shmctl_rmid_trace: "trace (snd (shmctl_rmid P sid w)) = trace w @ [E_shmctl_rmid sid]"
  by (simp add: shmctl_rmid_def split: prod.splits sum.splits)

lemma shmctl_stat_Some_errno: "shmctl_stat P sid w = (Some seg, w') \<Longrightarrow> errno w' = errno w"
  by (auto simp: shmctl_stat_def split: prod.splits sum.splits)

lemma shmget_ok_errno: "shmget P key sz flg w = (sid, w') \<Longrightarrow> sid \<noteq> - 1 \<Longrightarrow> errno w' = errno w"
  by (auto simp: shmget_def split: prod.splits sum.splits)

lemma shmget_memory: "memory (snd (shmget P key sz flg w)) = memory w"
  by (simp add: shmget_def split: prod.splits sum.splits)

lemma shmctl_stat_memory: "memory (snd (shmctl_stat P sid w)) = memory w"
  by (simp add: shmctl_stat_def split: prod.splits sum.splits)

lemma shmget_kernel:
  "kernel (snd (shmget P key sz flg w)) = snd (sys_shmget P key sz flg (kernel w))"
  by (simp add: shmget_def split: prod.splits sum.splits)

lemma shmctl_stat_kernel:
  "kernel (snd (shmctl_stat P sid w)) = snd (sys_shmctl_stat P sid (kernel w))"
  by (simp add: shmctl_stat_def split: prod.splits sum.splits)

lemma recreate_segment_probe:
  assumes "shmget P key sz (mode OR IPC_CREAT P) w = (- 1, w1)"
      and "shmget P key 0 0 w1 = (sid, w2)" and "sid \<noteq> - 1"
      and "shmctl_stat P sid w2 = (Some seg, w3)"
  shows "recreate_segment P key sz mode w =
     (if shm_segsz seg \<ge> sz then (- 1, w3)
      else if shm_nattch seg > 0 then (- 1, w3)
      else let (r, w4) = shmctl_rmid P sid w3 in
           if - 1 = r then (- 1, w4\<lparr>errno := errno w1\<rparr>)
           else shmget P key sz (mode OR IPC_CREAT P) w4)"
  using assms by (simp add: recreate_segment_def)

lemma probe_trace:
  assumes "shmget P key sz flg w = (r1, w1)"
      and "shmget P key 0 0 w1 = (sid, w2)"
      and "shmctl_stat P sid w2 = (st, w3)"
  shows "trace w3 = trace w @ [E_shmget key sz flg, E_shmget key 0 0, E_shmctl_stat sid]"
  using shmget_trace [of P key sz flg w] shmget_trace [of P key 0 0 w1]
    shmctl_stat_trace [of P sid w2] assms by simp

lemmas run_defs = recreate_segment_def call_defs scripted_def ex_world_def Let_def

lemma shmget_tick: "tick (snd (shmget P key sz flg w)) = tick w"
  by (simp add: shmget_def split: prod.splits sum.splits)

lemma shmctl_stat_tick: "tick (snd (shmctl_stat P sid w)) = tick w"
  by (simp add: shmctl_stat_def split: prod.splits sum.splits)

lemma shmctl_rmid_tick: "tick (snd (shmctl_rmid P sid w)) = tick w"
  by (simp add: shmctl_rmid_def split: prod.splits sum.splits)

lemma shmat_tick: "tick (snd (shmat P sid w)) = tick w"
  by (simp add: shmat_def split: prod.splits sum.splits)

lemma shmdt_tick: "tick (snd (shmdt P a w)) = tick w"
  by (simp add: shmdt_def split: prod.splits sum.splits)

lemma recreate_segment_tick: "tick (snd (recreate_segment P key sz mode w)) = tick w"
proof -
  obtain r1 w1 where a1: "shmget P key sz (mode OR IPC_CREAT P) w = (r1, w1)"
    by (cases "shmget P key sz (mode OR IPC_CREAT P) w")
  obtain sid w2 where a2: "shmget P key 0 0 w1 = (sid, w2)"
    by (cases "shmget P key 0 0 w1")
  obtain st w3 where a3: "shmctl_stat P sid w2 = (st, w3)"
    by (cases "shmctl_stat P sid w2")
  obtain r w4 where a4: "shmctl_rmid P sid w3 = (r, w4)"
    by (cases "shmctl_rmid P sid w3")
  have t1: "tick w1 = tick w"
    using shmget_tick [of P key sz "mode OR IPC_CREAT P" w] a1 by simp
  have t2: "tick w2 = tick w"
    using shmget_tick [of P key 0 0 w1] a2 t1 by simp
  have t3: "tick w3 = tick w"
    using shmctl_stat_tick [of P sid w2] a3 t2 by simp
  have t4: "tick w4 = tick w"
    using shmctl_rmid_tick [of P sid w3] a4 t3 by simp
  have t5: "tick (snd (shmget P key sz (mode OR IPC_CREAT P) w4)) = tick w"
    using shmget_tick [of P key sz "mode OR IPC_CREAT P" w4] t4 by simp
  show ?thesis
    using a1 a2 a3 a4 t1 t2 t3 t4 t5
    by (auto simp: recreate_segment_def Let_def split: option.splits)
qed

text \<open>
  Claim C3, as amended. Suppose the first \<open>shmget\<close> at the desired size fails, the
  segment can be opened by its key, \<open>IPC_STAT\<close> succeeds and reports a size strictly
  smaller than the desired size and no attached process. Then the function asks the
  platform to remove the segment. If the removal succeeds, \<open>shmget\<close> at the desired size
  is called again and its result, an identifier or \<open>-1\<close> with the \<open>errno\<close> of that call,
  is the result of the function. If the removal fails, the function returns \<open>-1\<close> with
  \<open>errno\<close> set back to the error of the first \<open>shmget\<close>, and creation is not retried.
\<close>

theorem recreate_segment_undersized_unattached:
  assumes "shmget P key sz (mode OR IPC_CREAT P) w = (- 1, w1)"
      and "shmget P key 0 0 w1 = (sid, w2)" and "sid \<noteq> - 1"
      and "shmctl_stat P sid w2 = (Some seg, w3)"
      and "shm_segsz seg < sz" and "shm_nattch seg = 0"
      and "shmctl_rmid P sid w3 = (r, w4)"
  shows "trace w4 = trace w @
           [E_shmget key sz (mode OR IPC_CREAT P), E_shmget key 0 0, E_shmctl_stat sid,
            E_shmctl_rmid sid] \<and>
         (r \<noteq> - 1 \<longrightarrow>
            recreate_segment P key sz mode w = shmget P key sz (mode OR IPC_CREAT P) w4) \<and>
         (r = - 1 \<longrightarrow> recreate_segment P key sz mode w = (- 1, w4\<lparr>errno := errno w1\<rparr>))"
proof -
  have "trace w3 = trace w @
           [E_shmget key sz (mode OR IPC_CREAT P), E_shmget key 0 0, E_shmctl_stat sid]"
    using assms(1,2,4) by (rule probe_trace)
  then have "trace w4 = trace w @
           [E_shmget key sz (mode OR IPC_CREAT P), E_shmget key 0 0, E_shmctl_stat sid,
            E_shmctl_rmid sid]"
    using shmctl_rmid_trace [of P sid w3] assms(7) by simp
  moreover have "recreate_segment P key sz mode w =
      (if - 1 = r then (- 1, w4\<lparr>errno := errno w1\<rparr>)
       else shmget P key sz (mode OR IPC_CREAT P) w4)"
    using assms by (simp add: recreate_segment_probe)
  ultimately show ?thesis by auto
qed

theorem recreate_segment_undersized_unattached_witness:
  "recreate_segment scripted 1 200 438
      (ex_world [Fails 22, Shmid 7, Stat \<lparr>shm_segsz = 100, shm_nattch = 0\<rparr>, Done, Shmid 8]) =
   (8, (ex_world []) \<lparr>errno := 22,
        trace := [E_shmget 1 200 950, E_shmget 1 0 0, E_shmctl_stat 7, E_shmctl_rmid 7,
                  E_shmget 1 200 950]\<rparr>)"
proof -
  let ?w = "ex_world [Fails 22, Shmid 7, Stat \<lparr>shm_segsz = 100, shm_nattch = 0\<rparr>, Done, Shmid 8]
              :: (reply list, nat) world"
  let ?w1 = "snd (shmget scripted 1 200 (438 OR IPC_CREAT scripted) ?w)"
  let ?w2 = "snd (shmget scripted 1 0 0 ?w1)"
  let ?w3 = "snd (shmctl_stat scripted 7 ?w2)"
  let ?w4 = "snd (shmctl_rmid scripted 7 ?w3)"
  have h1: "shmget scripted 1 200 (438 OR IPC_CREAT scripted) ?w = (- 1, ?w1)"
    by (simp add: run_defs)
  have h2: "shmget scripted 1 0 0 ?w1 = (7, ?w2)"
    by (simp add: run_defs)
  have h3: "(7::int) \<noteq> - 1"
    by simp
  have h4: "shmctl_stat scripted 7 ?w2 = (Some \<lparr>shm_segsz = 100, shm_nattch = 0\<rparr>, ?w3)"
    by (simp add: run_defs)
  have h5: "shm_segsz \<lparr>shm_segsz = 100, shm_nattch = 0\<rparr> < 200"
    and h6: "shm_nattch \<lparr>shm_segsz = 100, shm_nattch = 0\<rparr> = 0"
    by simp_all
  have h7: "shmctl_rmid scripted 7 ?w3 = (0, ?w4)"
    by (simp add: run_defs)
  have "recreate_segment scripted 1 200 438 ?w =
      shmget scripted 1 200 (438 OR IPC_CREAT scripted) ?w4"
    using recreate_segment_undersized_unattached [OF h1 h2 h3 h4 h5 h6 h7] by simp
  then show ?thesis
    by (simp add: call_defs scripted_def ex_world_def)
qed

text \<open>
  Claim C3 as it is written has the segment deleted and the creation retried whenever
  the segment is undersized and unattached. Here the first \<open>shmget\<close> fails with
  \<open>EINVAL\<close> (22), the segment is opened as 7, \<open>IPC_STAT\<close> reports size 100 (below 200)
  and no attachment, and \<open>IPC_RMID\<close> fails with \<open>EPERM\<close> (1): the function returns \<open>-1\<close>
  after four calls, the segment is still there and no second creation was attempted.
\<close>

theorem recreate_segment_delete_fails_counterexample:
  "sys_shmget scripted 1 200 (438 OR IPC_CREAT scripted)
      [Fails 22, Shmid 7, Stat \<lparr>shm_segsz = 100, shm_nattch = 0\<rparr>, Fails 1] =
     (Inl 22, [Shmid 7, Stat \<lparr>shm_segsz = 100, shm_nattch = 0\<rparr>, Fails 1]) \<and>
   sys_shmget scripted 1 0 0 [Shmid 7, Stat \<lparr>shm_segsz = 100, shm_nattch = 0\<rparr>, Fails 1] =
     (Inr 7, [Stat \<lparr>shm_segsz = 100, shm_nattch = 0\<rparr>, Fails 1]) \<and>
   sys_shmctl_stat scripted 7 [Stat \<lparr>shm_segsz = 100, shm_nattch = 0\<rparr>, Fails 1] =
     (Inr \<lparr>shm_segsz = 100, shm_nattch = 0\<rparr>, [Fails 1]) \<and>
   (100::nat) < 200 \<and>
   recreate_segment scripted 1 200 438
      (ex_world [Fails 22, Shmid 7, Stat \<lparr>shm_segsz = 100, shm_nattch = 0\<rparr>, Fails 1]) =
   (- 1, (ex_world []) \<lparr>errno := 22,
        trace := [E_shmget 1 200 950, E_shmget 1 0 0, E_shmctl_stat 7, E_shmctl_rmid 7]\<rparr>)"
  by (simp add: run_defs)

text \<open>
  Claim C4. Suppose the first \<open>shmget\<close> at the desired size fails, the segment can be
  opened by its key, and \<open>IPC_STAT\<close> reports a size strictly smaller than the desired
  size and at least one attached process. Then the function returns \<open>-1\<close> (its only
  failure value), and the calls it has made are the failed creation, the opening by key
  and \<open>IPC_STAT\<close>: no \<open>IPC_RMID\<close>, no second creation. The kernel state is the one those
  three calls leave, and the attached memory is untouched.
\<close>

theorem recreate_segment_busy:
  assumes "shmget P key sz (mode OR IPC_CREAT P) w = (- 1, w1)"
      and "shmget P key 0 0 w1 = (sid, w2)" and "sid \<noteq> - 1"
      and "shmctl_stat P sid w2 = (Some seg, w3)"
      and "shm_segsz seg < sz" and "0 < shm_nattch seg"
  shows "recreate_segment P key sz mode w = (- 1, w3) \<and>
         trace w3 = trace w @
           [E_shmget key sz (mode OR IPC_CREAT P), E_shmget key 0 0, E_shmctl_stat sid] \<and>
         kernel w3 = snd (sys_shmctl_stat P sid (snd (sys_shmget P key 0 0
                       (snd (sys_shmget P key sz (mode OR IPC_CREAT P) (kernel w)))))) \<and>
         memory w3 = memory w"
proof -
  have "recreate_segment P key sz mode w = (- 1, w3)"
    using assms by (simp add: recreate_segment_probe)
  moreover have "trace w3 = trace w @
           [E_shmget key sz (mode OR IPC_CREAT P), E_shmget key 0 0, E_shmctl_stat sid]"
    using assms(1,2,4) by (rule probe_trace)
  moreover have "memory w3 = memory w"
    using shmget_memory [of P key sz "mode OR IPC_CREAT P" w] shmget_memory [of P key 0 0 w1]
      shmctl_stat_memory [of P sid w2] assms by simp
  moreover have "kernel w3 = snd (sys_shmctl_stat P sid (snd (sys_shmget P key 0 0
                       (snd (sys_shmget P key sz (mode OR IPC_CREAT P) (kernel w))))))"
    using shmget_kernel [of P key sz "mode OR IPC_CREAT P" w] shmget_kernel [of P key 0 0 w1]
      shmctl_stat_kernel [of P sid w2] assms by simp
  ultimately show ?thesis by simp
qed

theorem recreate_segment_busy_witness:
  "recreate_segment scripted 1 200 438
      (ex_world [Fails 22, Shmid 7, Stat \<lparr>shm_segsz = 100, shm_nattch = 2\<rparr>]) =
   (- 1, (ex_world []) \<lparr>errno := 22,
        trace := [E_shmget 1 200 950, E_shmget 1 0 0, E_shmctl_stat 7]\<rparr>)"
proof -
  let ?w = "ex_world [Fails 22, Shmid 7, Stat \<lparr>shm_segsz = 100, shm_nattch = 2\<rparr>] :: (reply list, nat) world"
  let ?w1 = "snd (shmget scripted 1 200 (438 OR IPC_CREAT scripted) ?w)"
  let ?w2 = "snd (shmget scripted 1 0 0 ?w1)"
  let ?w3 = "snd (shmctl_stat scripted 7 ?w2)"
  have h1: "shmget scripted 1 200 (438 OR IPC_CREAT scripted) ?w = (- 1, ?w1)"
    by (simp add: run_defs)
  have h2: "shmget scripted 1 0 0 ?w1 = (7, ?w2)"
    by (simp add: run_defs)
  have h3: "(7::int) \<noteq> - 1" by simp
  have h4: "shmctl_stat scripted 7 ?w2 = (Some \<lparr>shm_segsz = 100, shm_nattch = 2\<rparr>, ?w3)"
    by (simp add: run_defs)
  have h5: "shm_segsz \<lparr>shm_segsz = 100, shm_nattch = 2\<rparr> < 200"
    and h6: "0 < shm_nattch \<lparr>shm_segsz = 100, shm_nattch = 2\<rparr>"
    by simp_all
  have "recreate_segment scripted 1 200 438 ?w = (- 1, ?w3)"
    using recreate_segment_busy [OF h1 h2 h3 h4 h5 h6] by simp
  then show ?thesis
    by (simp add: call_defs scripted_def ex_world_def)
qed

text \<open>
  Claim C5. Suppose the first \<open>shmget\<close> at the desired size fails, the segment can be
  opened by its key, and \<open>IPC_STAT\<close> reports a size greater than or equal to the desired
  size. Then the function returns \<open>-1\<close>, and the calls it has made are the failed
  creation, the opening by key and \<open>IPC_STAT\<close>: the segment is neither removed nor
  created again.
\<close>

theorem recreate_segment_big_enough:
  assumes "shmget P key sz (mode OR IPC_CREAT P) w = (- 1, w1)"
      and "shmget P key 0 0 w1 = (sid, w2)" and "sid \<noteq> - 1"
      and "shmctl_stat P sid w2 = (Some seg, w3)"
      and "sz \<le> shm_segsz seg"
  shows "recreate_segment P key sz mode w = (- 1, w3) \<and>
         trace w3 = trace w @
           [E_shmget key sz (mode OR IPC_CREAT P), E_shmget key 0 0, E_shmctl_stat sid] \<and>
         kernel w3 = snd (sys_shmctl_stat P sid (snd (sys_shmget P key 0 0
                       (snd (sys_shmget P key sz (mode OR IPC_CREAT P) (kernel w))))))"
proof -
  have "recreate_segment P key sz mode w = (- 1, w3)"
    using assms by (simp add: recreate_segment_probe)
  moreover have "trace w3 = trace w @
           [E_shmget key sz (mode OR IPC_CREAT P), E_shmget key 0 0, E_shmctl_stat sid]"
    using assms(1,2,4) by (rule probe_trace)
  moreover have "kernel w3 = snd (sys_shmctl_stat P sid (snd (sys_shmget P key 0 0
                       (snd (sys_shmget P key sz (mode OR IPC_CREAT P) (kernel w))))))"
    using shmget_kernel [of P key sz "mode OR IPC_CREAT P" w] shmget_kernel [of P key 0 0 w1]
      shmctl_stat_kernel [of P sid w2] assms by simp
  ultimately show ?thesis by simp
qed

theorem recreate_segment_big_enough_witness:
  "recreate_segment scripted 1 200 438
      (ex_world [Fails 13, Shmid 7, Stat \<lparr>shm_segsz = 300, shm_nattch = 0\<rparr>]) =
   (- 1, (ex_world []) \<lparr>errno := 13,
        trace := [E_shmget 1 200 950, E_shmget 1 0 0, E_shmctl_stat 7]\<rparr>)"
proof -
  let ?w = "ex_world [Fails 13, Shmid 7, Stat \<lparr>shm_segsz = 300, shm_nattch = 0\<rparr>]
              :: (reply list, nat) world"
  let ?w1 = "snd (shmget scripted 1 200 (438 OR IPC_CREAT scripted) ?w)"
  let ?w2 = "snd (shmget scripted 1 0 0 ?w1)"
  let ?w3 = "snd (shmctl_stat scripted 7 ?w2)"
  have h1: "shmget scripted 1 200 (438 OR IPC_CREAT scripted) ?w = (- 1, ?w1)"
    by (simp add: run_defs)
  have h2: "shmget scripted 1 0 0 ?w1 = (7, ?w2)"
    by (simp add: run_defs)
  have h3: "(7::int) \<noteq> - 1"
    by simp
  have h4: "shmctl_stat scripted 7 ?w2 = (Some \<lparr>shm_segsz = 300, shm_nattch = 0\<rparr>, ?w3)"
    by (simp add: run_defs)
  have h5: "200 \<le> shm_segsz \<lparr>shm_segsz = 300, shm_nattch = 0\<rparr>"
    by simp
  have "recreate_segment scripted 1 200 438 ?w = (- 1, ?w3)"
    using recreate_segment_big_enough [OF h1 h2 h3 h4 h5] by simp
  then show ?thesis
    by (simp add: call_defs scripted_def ex_world_def)
qed

text \<open>
  Claim C6. Suppose the first \<open>shmget\<close> fails with the error \<open>e\<close>, and the call then
  ends on one of the five paths before the retry: the segment cannot be opened by key;
  \<open>IPC_STAT\<close> fails; the segment is big enough; the segment is undersized and has
  attached processes; or \<open>IPC_RMID\<close> fails. Then the function returns \<open>-1\<close> and the
  \<open>errno\<close> the caller sees is \<open>e\<close>, not the error of a later call. On the three paths
  that follow a failed call the function assigns \<open>saved_errno\<close> back; on the other two
  it assigns nothing, and \<open>errno\<close> is still \<open>e\<close> because the calls made since the first
  failure succeeded.
\<close>

theorem recreate_segment_keeps_first_errno:
  assumes "sys_shmget P key sz (mode OR IPC_CREAT P) (kernel w) = (Inl e, k1)"
      and "w1 = snd (shmget P key sz (mode OR IPC_CREAT P) w)"
      and "shmget P key 0 0 w1 = (sid, w2)"
      and "shmctl_stat P sid w2 = (st, w3)"
      and "shmctl_rmid P sid w3 = (r, w4)"
      and "sid = - 1 \<or> st = None \<or>
           (\<exists>seg. st = Some seg \<and> (sz \<le> shm_segsz seg \<or> 0 < shm_nattch seg)) \<or> r = - 1"
  shows "fst (recreate_segment P key sz mode w) = - 1 \<and>
         errno (snd (recreate_segment P key sz mode w)) = e"
proof -
  have w1: "shmget P key sz (mode OR IPC_CREAT P) w = (- 1, w1)" and e: "errno w1 = e"
    using assms(1,2) by (simp_all add: shmget_def)
  show ?thesis
  proof (cases "sid = - 1")
    case True
    then show ?thesis using w1 e assms(3) by (simp add: recreate_segment_def)
  next
    case sid: False
    show ?thesis
    proof (cases st)
      case None
      then show ?thesis using w1 e sid assms(3,4) by (simp add: recreate_segment_def)
    next
      case (Some seg)
      have e3: "errno w3 = e"
        using shmget_ok_errno [OF assms(3) sid] shmctl_stat_Some_errno [of P sid w2 seg w3]
          assms(4) Some e by simp
      have "r = - 1" if "\<not> sz \<le> shm_segsz seg" "\<not> 0 < shm_nattch seg"
        using that assms(6) sid Some by auto
      then show ?thesis
        using w1 e e3 sid assms(3,4,5) Some
        by (auto simp: recreate_segment_probe)
    qed
  qed
qed

theorem recreate_segment_keeps_first_errno_witness:
  "recreate_segment scripted 1 200 438 (ex_world [Fails 22, Shmid 7, Fails 13]) =
   (- 1, (ex_world []) \<lparr>errno := 22,
        trace := [E_shmget 1 200 950, E_shmget 1 0 0, E_shmctl_stat 7]\<rparr>)"
proof -
  let ?w = "ex_world [Fails 22, Shmid 7, Fails 13] :: (reply list, nat) world"
  let ?w1 = "snd (shmget scripted 1 200 (438 OR IPC_CREAT scripted) ?w)"
  let ?w2 = "snd (shmget scripted 1 0 0 ?w1)"
  let ?w3 = "snd (shmctl_stat scripted 7 ?w2)"
  let ?r4 = "shmctl_rmid scripted 7 ?w3"
  have h1: "sys_shmget scripted 1 200 (438 OR IPC_CREAT scripted) (kernel ?w) =
      (Inl 22, [Shmid 7, Fails 13])"
    by (simp add: scripted_def ex_world_def)
  have h3: "shmget scripted 1 0 0 ?w1 = (7, ?w2)"
    by (simp add: run_defs)
  have h4: "shmctl_stat scripted 7 ?w2 = (None, ?w3)"
    by (simp add: run_defs)
  have h5: "?r4 = (fst ?r4, snd ?r4)"
    by simp
  have h6: "(7::int) = - 1 \<or> (None :: shmid_ds option) = None \<or>
      (\<exists>seg. None = Some seg \<and> (200 \<le> shm_segsz seg \<or> 0 < shm_nattch seg)) \<or>
      fst ?r4 = - 1"
    by simp
  have "fst (recreate_segment scripted 1 200 438 ?w) = - 1 \<and>
      errno (snd (recreate_segment scripted 1 200 438 ?w)) = 22"
    using recreate_segment_keeps_first_errno [OF h1 refl h3 h4 h5 h6] by simp
  then show ?thesis
    by (simp add: run_defs)
qed

section \<open>shm\_acquire\<close>

lemma shmat_GPSD_LOG: "fst (shmat P sid (GPSD_LOG lvl fmt w)) = fst (shmat P sid w)"
  by (simp add: shmat_def GPSD_LOG_def split: prod.splits sum.splits)

lemma int_of_pointer_failed: "int_of_pointer (- 1) = - 1"
  unfolding int_of_pointer_def by (rule bit_word_eqI) (simp add: bit_simps)

lemma shm_acquire_tick: "tick (snd (snd (shm_acquire P B c w))) = tick w"
proof -
  let ?key = "key_t_of_long (case sys_getenv P ''GPSD_SHM_KEY'' of
                Some s \<Rightarrow> lib_strtol P s | None \<Rightarrow> GPSD_SHM_KEY B)"
  obtain sid w1 where a1: "recreate_segment P ?key (sizeof_shmexport_t B) 438 w = (sid, w1)"
    by (cases "recreate_segment P ?key (sizeof_shmexport_t B) 438 w")
  have t1: "tick w1 = tick w"
    using recreate_segment_tick [of P ?key "sizeof_shmexport_t B" 438 w] a1 by simp
  let ?w2 = "GPSD_LOG LOG_PROG ''shmget(0x%lx, %zd, 0666) for SHM export succeeded\<newline>'' w1"
  obtain p w3 where a3: "shmat P sid ?w2 = (p, w3)"
    by (cases "shmat P sid ?w2")
  have t3: "tick w3 = tick w"
    using shmat_tick [of P sid ?w2] a3 t1 by (simp add: GPSD_LOG_def)
  show ?thesis
    using a1 a3 t1 t3 by (simp add: shm_acquire_def Let_def GPSD_LOG_def)
qed

text \<open>
  Claim C8. Suppose \<open>recreate_segment\<close>, called with the resolved key, the size of the
  exported record and mode \<open>0666\<close>, returns a segment identifier, and \<open>shmat\<close> on that
  identifier returns the failure value \<open>(void *)-1\<close>. Then \<open>shm_acquire\<close> returns false
  and leaves the context with \<open>shmexport\<close> set to \<open>NULL\<close>; \<open>shmid\<close> is not assigned.
\<close>

theorem shm_acquire_attach_fails:
  assumes "recreate_segment P
             (key_t_of_long (case sys_getenv P ''GPSD_SHM_KEY'' of
                               Some s \<Rightarrow> lib_strtol P s | None \<Rightarrow> GPSD_SHM_KEY B))
             (sizeof_shmexport_t B) 438 w = (sid, w1)"
      and "sid \<noteq> - 1"
      and "fst (shmat P sid w1) = - 1"
  shows "fst (shm_acquire P B context w) = False \<and>
         shmexport (fst (snd (shm_acquire P B context w))) = NULL \<and>
         shmid (fst (snd (shm_acquire P B context w))) = shmid context"
proof -
  let ?w2 = "GPSD_LOG LOG_PROG ''shmget(0x%lx, %zd, 0666) for SHM export succeeded\<newline>'' w1"
  obtain p w3 where a: "shmat P sid ?w2 = (p, w3)"
    by (cases "shmat P sid ?w2")
  have "fst (shmat P sid ?w2) = - 1"
    using assms(3) by (simp add: shmat_GPSD_LOG)
  with a have p: "p = - 1"
    by simp
  show ?thesis
    using assms(1,2) a p
    by (simp add: shm_acquire_def Let_def int_of_pointer_failed)
qed

theorem shm_acquire_attach_fails_witness:
  "shm_acquire scripted ex_build ex_context (ex_world [Shmid 3, Fails 12]) =
     (False, \<lparr>shmexport = NULL, shmid = 7\<rparr>,
      (ex_world [])\<lparr>errno := 12, trace :=
        [E_shmget 0x47505344 200 950,
         E_log LOG_PROG ''shmget(0x%lx, %zd, 0666) for SHM export succeeded\<newline>'',
         E_shmat 3,
         E_log LOG_ERROR ''shmat failed: %s\<newline>'']\<rparr>)"
proof -
  let ?w = "ex_world [Shmid 3, Fails 12] :: (reply list, nat) world"
  let ?key = "key_t_of_long (case sys_getenv scripted ''GPSD_SHM_KEY'' of
                Some s \<Rightarrow> lib_strtol scripted s | None \<Rightarrow> GPSD_SHM_KEY ex_build)"
  let ?w1 = "snd (recreate_segment scripted ?key (sizeof_shmexport_t ex_build) 438 ?w)"
  have h1: "recreate_segment scripted ?key (sizeof_shmexport_t ex_build) 438 ?w = (3, ?w1)"
    by (simp add: run_defs ex_build_def)
  have h2: "(3::int) \<noteq> - 1" by simp
  have h3: "fst (shmat scripted 3 ?w1) = - 1"
    by (simp add: run_defs ex_build_def)
  have "fst (shm_acquire scripted ex_build ex_context ?w) = False"
    using shm_acquire_attach_fails [OF h1 h2 h3] by simp
  then show ?thesis
    by (simp add: shm_acquire_def run_defs ex_build_def ex_context_def key_t_of_long_def
        int_of_pointer_failed)
qed

section \<open>shm\_release\<close>

lemma shm_release_null: "shmexport c = NULL \<Longrightarrow> shm_release P c w = (c, w)"
  by (simp add: shm_release_def)

lemma shm_release_context: "fst (shm_release P c w) = c"
  by (simp add: shm_release_def Let_def split: prod.splits)

lemma shm_release_events:
  "shmexport c \<noteq> NULL \<Longrightarrow>
   trace (snd (shm_release P c w)) = trace w @
     E_shmctl_rmid (shmid c) #
     (if isl (fst (sys_shmctl_rmid P (shmid c) (kernel w)))
      then [E_log LOG_WARN ''shmctl for IPC_RMID failed, errno = %d (%s)\<newline>''] else []) @
     [E_shmdt (shmexport c)]"
  by (auto simp: shm_release_def Let_def call_defs split: prod.splits sum.splits)

lemma shm_release_tick: "tick (snd (shm_release P c w)) = tick w"
proof -
  obtain r w1 where a1: "shmctl_rmid P (shmid c) w = (r, w1)"
    by (cases "shmctl_rmid P (shmid c) w")
  let ?w2 = "if r = - 1
             then GPSD_LOG LOG_WARN ''shmctl for IPC_RMID failed, errno = %d (%s)\<newline>'' w1
             else w1"
  obtain q w3 where a3: "shmdt P (shmexport c) ?w2 = (q, w3)"
    by (cases "shmdt P (shmexport c) ?w2")
  have t1: "tick ?w2 = tick w"
    using shmctl_rmid_tick [of P "shmid c" w] a1 by (simp add: GPSD_LOG_def)
  have t3: "tick w3 = tick w"
    using shmdt_tick [of P "shmexport c" ?w2] a3 t1 by simp
  show ?thesis
    using a1 a3 t3 by (simp add: shm_release_def Let_def)
qed

text \<open>
  Claim C9. On a context whose region is \<open>NULL\<close>, \<open>shm_release\<close> returns at once: the
  context and the world, with its kernel state, memory, \<open>errno\<close> and trace, are what
  they were, so no \<open>IPC_RMID\<close> and no \<open>shmdt\<close> is issued. \<open>shm_update\<close> on such a
  context changes nothing either. Both functions are total, so neither can fail.
\<close>

theorem shm_null_region_noop:
  assumes "shmexport context = NULL"
  shows "shm_release P context w = (context, w) \<and> shm_update B context g w = (context, w)"
  using assms by (simp add: shm_release_null shm_update_null)

theorem shm_null_region_noop_witness:
  "shmexport ex_null_context = NULL \<and>
   shm_release scripted ex_null_context (ex_world [Done, Done]) =
     (ex_null_context, ex_world [Done, Done]) \<and>
   shm_update ex_build ex_null_context ex_gpsdata (ex_world [Done, Done]) =
     (ex_null_context, ex_world [Done, Done])"
proof -
  have h: "shmexport ex_null_context = NULL"
    by (simp add: ex_null_context_def)
  show ?thesis
    using h shm_null_region_noop [OF h, of scripted "ex_world [Done, Done]" ex_build ex_gpsdata]
    by simp
qed

lemma shm_release_world:
  assumes "shmexport c \<noteq> NULL"
      and "sys_shmctl_rmid P (shmid c) (kernel w) = (r, k1)"
      and "sys_shmdt P (shmexport c) k1 = (d, k2)"
  shows "shm_release P c w =
     (c, w\<lparr>errno := (case d of Inl e \<Rightarrow> e
                        | Inr _ \<Rightarrow> (case r of Inl e \<Rightarrow> e | Inr _ \<Rightarrow> errno w)),
           kernel := k2,
           trace := trace w @
             E_shmctl_rmid (shmid c) #
             (case r of
                Inl _ \<Rightarrow> [E_log LOG_WARN ''shmctl for IPC_RMID failed, errno = %d (%s)\<newline>'']
              | Inr _ \<Rightarrow> []) @
             [E_shmdt (shmexport c)]\<rparr>)"
proof (cases r)
  case (Inl e)
  show ?thesis
  proof (cases d)
    case (Inl e')
    with \<open>r = Inl e\<close> assms show ?thesis
      by (simp add: shm_release_def Let_def call_defs)
  next
    case (Inr u)
    with \<open>r = Inl e\<close> assms show ?thesis
      by (simp add: shm_release_def Let_def call_defs)
  qed
next
  case (Inr v)
  show ?thesis
  proof (cases d)
    case (Inl e')
    with \<open>r = Inr v\<close> assms show ?thesis
      by (simp add: shm_release_def Let_def call_defs)
  next
    case (Inr u)
    with \<open>r = Inr v\<close> assms show ?thesis
      by (simp add: shm_release_def Let_def call_defs)
  qed
qed

text \<open>
  Claim C10. \<open>shm_release\<close> on a context whose region is not \<open>NULL\<close> returns the
  context as it was: \<open>shmexport\<close> is still the same non-null pointer and \<open>shmid\<close> the
  same identifier. A second release on that context therefore does the whole work again:
  it applies \<open>IPC_RMID\<close> to the identifier and then \<open>shmdt\<close> to the pointer, so the kernel
  state after it is the one the platform's \<open>shmdt\<close> leaves after the platform's
  \<open>IPC_RMID\<close>; \<open>errno\<close> is the error of the last of the two calls that failed, if any;
  the trace gains the two calls, with the warning logged in between when \<open>IPC_RMID\<close>
  failed; and nothing else in the world changes. The world after it differs from the
  world before it.
\<close>

theorem shm_release_keeps_context:
  assumes "shmexport context \<noteq> NULL"
      and "shm_release P context w = (context1, w1)"
      and "shm_release P context1 w1 = (context2, w2)"
      and "sys_shmctl_rmid P (shmid context) (kernel w1) = (r, k1)"
      and "sys_shmdt P (shmexport context) k1 = (d, k2)"
  shows "context1 = context \<and> context2 = context \<and>
         shmexport context1 = shmexport context \<and> shmid context1 = shmid context \<and>
         shmexport context1 \<noteq> NULL \<and>
         w2 = w1\<lparr>errno := (case d of Inl e \<Rightarrow> e
                            | Inr _ \<Rightarrow> (case r of Inl e \<Rightarrow> e | Inr _ \<Rightarrow> errno w1)),
                 kernel := k2,
                 trace := trace w1 @
                   E_shmctl_rmid (shmid context) #
                   (case r of
                      Inl _ \<Rightarrow>
                        [E_log LOG_WARN ''shmctl for IPC_RMID failed, errno = %d (%s)\<newline>'']
                    | Inr _ \<Rightarrow> []) @
                   [E_shmdt (shmexport context)]\<rparr> \<and>
         kernel w2 = snd (sys_shmdt P (shmexport context)
                       (snd (sys_shmctl_rmid P (shmid context) (kernel w1)))) \<and>
         trace w2 = trace w1 @
           E_shmctl_rmid (shmid context) #
           (if isl (fst (sys_shmctl_rmid P (shmid context) (kernel w1)))
            then [E_log LOG_WARN ''shmctl for IPC_RMID failed, errno = %d (%s)\<newline>'']
            else []) @
           [E_shmdt (shmexport context)] \<and>
         w2 \<noteq> w1"
proof -
  have c1: "context1 = context"
    using shm_release_context [of P "context" w] assms(2) by simp
  have c2: "context2 = context"
    using shm_release_context [of P context1 w1] assms(3) c1 by simp
  have w2: "w2 = w1\<lparr>errno := (case d of Inl e \<Rightarrow> e
                            | Inr _ \<Rightarrow> (case r of Inl e \<Rightarrow> e | Inr _ \<Rightarrow> errno w1)),
                 kernel := k2,
                 trace := trace w1 @
                   E_shmctl_rmid (shmid context) #
                   (case r of
                      Inl _ \<Rightarrow>
                        [E_log LOG_WARN ''shmctl for IPC_RMID failed, errno = %d (%s)\<newline>'']
                    | Inr _ \<Rightarrow> []) @
                   [E_shmdt (shmexport context)]\<rparr>"
  proof -
    note r = shm_release_world [OF assms(1,4,5)]
    have "shm_release P context w1 = (context2, w2)"
      using assms(3) unfolding c1 .
    then have "snd (shm_release P context w1) = w2"
      by simp
    then show ?thesis
      unfolding r by simp
  qed
  have k: "kernel w2 = snd (sys_shmdt P (shmexport context)
                       (snd (sys_shmctl_rmid P (shmid context) (kernel w1))))"
    using w2 assms(4,5) by simp
  have t: "trace w2 = trace w1 @
           E_shmctl_rmid (shmid context) #
           (if isl (fst (sys_shmctl_rmid P (shmid context) (kernel w1)))
            then [E_log LOG_WARN ''shmctl for IPC_RMID failed, errno = %d (%s)\<newline>'']
            else []) @
           [E_shmdt (shmexport context)]"
    using shm_release_events [of "context" P w1] assms(1,3) c1 by simp
  then have "trace w2 \<noteq> trace w1"
    by simp
  then have ne: "w2 \<noteq> w1"
    by auto
  show ?thesis
    using c1 c2 w2 k t ne assms(1) by blast
qed

theorem shm_release_keeps_context_witness:
  "shmexport ex_context \<noteq> NULL \<and>
   shm_release scripted ex_context (ex_world [Done, Done, Fails 43, Fails 22]) =
     (ex_context,
      (ex_world [Fails 43, Fails 22])\<lparr>trace := [E_shmctl_rmid 7, E_shmdt 4096]\<rparr>) \<and>
   shm_release scripted ex_context
      ((ex_world [Fails 43, Fails 22])\<lparr>trace := [E_shmctl_rmid 7, E_shmdt 4096]\<rparr>) =
     (ex_context,
      (ex_world [])\<lparr>errno := 22,
        trace := [E_shmctl_rmid 7, E_shmdt 4096,
                  E_shmctl_rmid 7,
                  E_log LOG_WARN ''shmctl for IPC_RMID failed, errno = %d (%s)\<newline>'',
                  E_shmdt 4096]\<rparr>)"
proof -
  have h: "shmexport ex_context \<noteq> NULL"
    by (rule ex_context_not_null)
  let ?w = "ex_world [Done, Done, Fails 43, Fails 22] :: (reply list, nat) world"
  let ?w1 = "(ex_world [Fails 43, Fails 22] :: (reply list, nat) world)
               \<lparr>trace := [E_shmctl_rmid 7, E_shmdt 4096]\<rparr>"
  let ?r2 = "shm_release scripted ex_context ?w1"
  have e1: "shm_release scripted ex_context ?w = (ex_context, ?w1)"
    by (simp add: shm_release_def call_defs scripted_def ex_world_def ex_context_def NULL_def)
  have e2: "?r2 = (fst ?r2, snd ?r2)"
    by simp
  have h4: "sys_shmctl_rmid scripted (shmid ex_context) (kernel ?w1) = (Inl 43, [Fails 22])"
    by (simp add: scripted_def ex_world_def)
  have h5: "sys_shmdt scripted (shmexport ex_context) [Fails 22] = (Inl 22, [])"
    by (simp add: scripted_def)
  have "fst ?r2 = ex_context \<and>
      snd ?r2 = ?w1\<lparr>errno := 22, kernel := [],
        trace := trace ?w1 @ E_shmctl_rmid (shmid ex_context) #
          [E_log LOG_WARN ''shmctl for IPC_RMID failed, errno = %d (%s)\<newline>''] @
          [E_shmdt (shmexport ex_context)]\<rparr>"
    using shm_release_keeps_context [OF h e1 e2 h4 h5] by simp
  then have "?r2 = (ex_context, ?w1\<lparr>errno := 22, kernel := [],
        trace := trace ?w1 @ E_shmctl_rmid (shmid ex_context) #
          [E_log LOG_WARN ''shmctl for IPC_RMID failed, errno = %d (%s)\<newline>''] @
          [E_shmdt (shmexport ex_context)]\<rparr>)"
    using e2 by simp
  then show ?thesis
    using h e1 by (simp add: ex_world_def ex_context_def)
qed

end
